theory Spec2Isabelle
  imports Main
begin

section \<open>Python values and strings\<close>

text \<open>
  Python strings are modelled as \<^typ>\<open>string\<close>: a list of characters, where slicing and
  \<open>len\<close> count list elements. The values found in a node's metadata dictionary are
  strings, integers or \<open>None\<close>; \<open>truthy\<close> is Python's truth value of such a value and
  \<open>py_or\<close> is the \<open>or\<close> operator, which returns its left operand when that is truthy and
  its right operand otherwise.
\<close>

datatype pyval = PNone | PStr string | PInt int

fun truthy :: "pyval \<Rightarrow> bool" where
  "truthy PNone = False"
| "truthy (PStr s) = (s \<noteq> [])"
| "truthy (PInt i) = (i \<noteq> 0)"

definition py_or :: "pyval \<Rightarrow> pyval \<Rightarrow> pyval" where
  "py_or a b = (if truthy a then a else b)"

definition newline :: char where
  "newline = CHR 0x0A"

definition digit_char :: "nat \<Rightarrow> char" where
  "digit_char d = ''0123456789'' ! d"

text \<open>\<open>str\<close> of a Python integer: its decimal digits, with a minus sign when negative.\<close>

function str_nat :: "nat \<Rightarrow> string" where
  "str_nat n = (if n < 10 then [digit_char n] else str_nat (n div 10) @ [digit_char (n mod 10)])"
  by pat_completeness auto
termination
  by (relation "measure id") auto

declare str_nat.simps [simp del]

definition str_int :: "int \<Rightarrow> string" where
  "str_int i = (if i < 0 then CHR ''-'' # str_nat (nat (- i)) else str_nat (nat i))"

text \<open>\<open>str\<close> of a metadata value, as an f-string renders it.\<close>

fun str_pyval :: "pyval \<Rightarrow> string" where
  "str_pyval PNone = ''None''"
| "str_pyval (PStr s) = s"
| "str_pyval (PInt i) = str_int i"

text \<open>\<open>s.replace(old, new)\<close> for a pattern \<open>old\<close> of one character.\<close>

definition replace_char :: "char \<Rightarrow> string \<Rightarrow> string \<Rightarrow> string" where
  "replace_char old new s = concat (map (\<lambda>c. if c = old then new else [c]) s)"

text \<open>\<open>meta.get(key)\<close>: the value stored under the key, \<open>None\<close> when the key is missing.\<close>

definition meta_get :: "(string \<rightharpoonup> pyval) \<Rightarrow> string \<Rightarrow> pyval" where
  "meta_get meta k = (case meta k of None \<Rightarrow> PNone | Some v \<Rightarrow> v)"

section \<open>Nodes and source map entries\<close>

text \<open>
  A \<open>NodeWithScore\<close> wraps a text node and an optional relevance score. The model keeps
  what \<open>_split_and_number\<close> reads and writes: the node's content, its metadata dictionary
  and the score. The score is a float or \<open>None\<close>; floats are left abstract as the type
  parameter \<open>'s\<close>. The \<open>getattr\<close> defaults of the source serve objects of another shape
  than the declared \<open>List[NodeWithScore]\<close> and have no counterpart here; a metadata that
  is \<open>None\<close> or empty is the empty map.
\<close>

record 's node_with_score =
  node_text :: string
  metadata :: "string \<rightharpoonup> pyval"
  score :: "'s option"

text \<open>One dictionary of the printable source map, with its five fixed keys.\<close>

record 's source_entry =
  sm_N :: int
  sm_file_path :: pyval
  sm_page :: pyval
  sm_score :: "'s option"
  sm_snippet :: string

section \<open>Splitting and numbering\<close>

datatype exn = KeyboardInterrupt | Exception string

text \<open>
  The sentence splitter belongs to the external library. Its constructor takes the chunk
  size and the chunk overlap and either raises or yields the splitter, whose \<open>split_text\<close>
  maps a text to its list of chunks. Both are parameters of the model. The counter is a
  Python integer, starting at 1 and incremented after each chunk.
\<close>

type_synonym splitter = "string \<Rightarrow> string list"

type_synonym 's numbering = "int \<times> 's node_with_score list \<times> 's source_entry list"

definition file_path_of :: "(string \<rightharpoonup> pyval) \<Rightarrow> pyval" where
  "file_path_of meta =
     py_or (meta_get meta ''file_path'')
       (py_or (meta_get meta ''filename'')
         (py_or (meta_get meta ''source'') (PStr ''unknown'')))"

definition page_of :: "(string \<rightharpoonup> pyval) \<Rightarrow> pyval" where
  "page_of meta =
     py_or (meta_get meta ''page_label'')
       (py_or (meta_get meta ''page_number'')
         (py_or (meta_get meta ''page'') (PStr ''?'')))"

definition labeled_text :: "int \<Rightarrow> string \<Rightarrow> string" where
  "labeled_text counter chunk = ''Source '' @ str_int counter @ '':'' @ [newline] @ chunk"

definition new_node :: "int \<Rightarrow> pyval \<Rightarrow> pyval \<Rightarrow> 's option \<Rightarrow> string \<Rightarrow> 's node_with_score" where
  "new_node counter file_path page sc chunk =
     \<lparr> node_text = labeled_text counter chunk,
       metadata = [''source_index'' \<mapsto> PInt counter, ''file_path'' \<mapsto> file_path, ''page'' \<mapsto> page],
       score = sc \<rparr>"

definition new_entry :: "int \<Rightarrow> pyval \<Rightarrow> pyval \<Rightarrow> 's option \<Rightarrow> string \<Rightarrow> 's source_entry" where
  "new_entry counter file_path page sc chunk =
     \<lparr> sm_N = counter, sm_file_path = file_path, sm_page = page, sm_score = sc,
       sm_snippet = replace_char newline '' '' (take 240 chunk) \<rparr>"

text \<open>
  The inner loop over the chunks of one node. The state is the counter and the two
  result lists, each extended at its end.
\<close>

fun number_chunks ::
  "'s node_with_score \<Rightarrow> pyval \<Rightarrow> pyval \<Rightarrow> string list \<Rightarrow> 's numbering \<Rightarrow> 's numbering" where
  "number_chunks nws file_path page [] st = st"
| "number_chunks nws file_path page (chunk # chunks) (counter, numbered_nodes, source_map) =
     number_chunks nws file_path page chunks
       (counter + 1,
        numbered_nodes @ [new_node counter file_path page (score nws) chunk],
        source_map @ [new_entry counter file_path page (score nws) chunk])"

text \<open>The outer loop over the retrieved nodes, in retrieval order.\<close>

fun number_nodes :: "splitter \<Rightarrow> 's node_with_score list \<Rightarrow> 's numbering \<Rightarrow> 's numbering" where
  "number_nodes split_text [] st = st"
| "number_nodes split_text (nws # nodes) st =
     number_nodes split_text nodes
       (number_chunks nws (file_path_of (metadata nws)) (page_of (metadata nws))
          (split_text (node_text nws)) st)"

definition split_and_number ::
  "(int \<Rightarrow> int \<Rightarrow> exn + splitter) \<Rightarrow> 's node_with_score list \<Rightarrow> int \<Rightarrow> int
     \<Rightarrow> exn + ('s node_with_score list \<times> 's source_entry list)" where
  "split_and_number SentenceSplitter nodes chunk_size chunk_overlap =
     (case SentenceSplitter chunk_size chunk_overlap of
        Inl e \<Rightarrow> Inl e
      | Inr split_text \<Rightarrow>
          (case number_nodes split_text nodes (1, [], []) of
             (counter, numbered_nodes, source_map) \<Rightarrow> Inr (numbered_nodes, source_map)))"

definition source_index :: "'s node_with_score \<Rightarrow> pyval" where
  "source_index u = meta_get (metadata u) ''source_index''"

section \<open>The prompt template\<close>

text \<open>
  \<open>CITATION_QA_TEMPLATE\<close> formatted with its two fields. The template text has no other
  placeholder, so formatting puts the context and the query between three fixed parts.
\<close>

definition qa_head :: string where
  "qa_head =
     ''You are a careful analyst. Use ONLY the numbered sources to answer.'' @ [newline] @
     ''Each time you use information, cite it inline as [Source N]. If multiple sources support a claim, include multiple citations.'' @ [newline] @
     [newline] @
     ''Sources:'' @ [newline]"

definition qa_mid :: string where
  "qa_mid = [newline] @ [newline] @ ''Question:'' @ [newline]"

definition qa_tail :: string where
  "qa_tail =
     [newline] @ [newline] @
     ''Rules:'' @ [newline] @
     ''- Never invent citations or source numbers that do not exist above.'' @ [newline] @
     ''- If the answer is not fully supported by the sources, say you don'' @ [CHR 0x27] @ ''t know.'' @ [newline] @
     ''- Keep the answer concise but complete.'' @ [newline] @
     [newline] @
     ''Answer with inline citations:''"

definition CITATION_QA_TEMPLATE :: "string \<Rightarrow> string \<Rightarrow> string" where
  "CITATION_QA_TEMPLATE context_str query_str = qa_head @ context_str @ qa_mid @ query_str @ qa_tail"






section \<open>The run\<close>

text \<open>
  The external collaborators of one run: the PDF reader, the index builder (which calls
  the embedding service), the retriever, the constructor of the sentence splitter and the
  response synthesizer (which calls the completion service). Each may raise. Documents
  and the index are opaque, types \<open>'d\<close> and \<open>'i\<close>. \<open>repr_score\<close> is \<open>str\<close> on a float.
  The synthesizer is built in compact mode with the two citation templates; building it,
  the embedding model and the language model object calls no service and leaves no event.
  A \<open>response\<close> holds what the run reads of the synthesizer's result: its attributes
  \<open>response\<close> and \<open>text\<close>, \<open>None\<close> when missing, and its \<open>str\<close>. The run hands the
  language model object to the synthesizer and never calls it itself, so the completion
  service is called only inside \<open>asynthesize\<close>: \<open>completion_prompts\<close> gives the prompts
  that the synthesizer sends to it during the call with these arguments.
\<close>

record response =
  resp_response :: pyval
  resp_text :: pyval
  resp_str :: string

record ('d, 'i, 's) collaborators =
  load_data :: "string list \<Rightarrow> exn + 'd"
  from_documents :: "'d \<Rightarrow> exn + 'i"
  retrieve :: "'i \<Rightarrow> int \<Rightarrow> string \<Rightarrow> exn + 's node_with_score list"
  SentenceSplitter :: "int \<Rightarrow> int \<Rightarrow> exn + splitter"
  asynthesize :: "string \<Rightarrow> string \<Rightarrow> 's node_with_score list \<Rightarrow> exn + response"
  completion_prompts :: "string \<Rightarrow> string \<Rightarrow> 's node_with_score list \<Rightarrow> string list"
  repr_score :: "'s \<Rightarrow> string"

text \<open>
  What a run does to the outside, in order: a line printed, or a call of a collaborator
  with its arguments (the retriever with \<open>top_k\<close> and the query, the synthesizer with the
  model name, the query and the numbered nodes).
\<close>

datatype 's event =
    Print string
  | Load_data "string list"
  | From_documents
  | Retrieve int string
  | Asynthesize string string "'s node_with_score list"

definition str_score :: "('s \<Rightarrow> string) \<Rightarrow> 's option \<Rightarrow> string" where
  "str_score repr sc = (case sc of None \<Rightarrow> ''None'' | Some x \<Rightarrow> repr x)"

text \<open>The two box-drawing characters of the snippet line, as their UTF-8 bytes.\<close>

definition branch_glyph :: string where
  "branch_glyph = [CHR 0xE2, CHR 0x94, CHR 0x94, CHR 0xE2, CHR 0x94, CHR 0x80]"

definition source_line :: "('s \<Rightarrow> string) \<Rightarrow> 's source_entry \<Rightarrow> string" where
  "source_line repr s =
     ''[Source '' @ str_int (sm_N s) @ ''] file='' @ str_pyval (sm_file_path s) @
     '' page='' @ str_pyval (sm_page s) @ '' score='' @ str_score repr (sm_score s)"

definition snippet_line :: "'s source_entry \<Rightarrow> string" where
  "snippet_line s = ''  '' @ branch_glyph @ '' '' @ sm_snippet s @ ''...''"

definition print_entries :: "('s \<Rightarrow> string) \<Rightarrow> 's source_entry list \<Rightarrow> 's event list" where
  "print_entries repr source_map =
     concat (map (\<lambda>s. [Print (source_line repr s), Print (snippet_line s)]) (take 50 source_map))"

definition print_more :: "'s source_entry list \<Rightarrow> 's event list" where
  "print_more source_map =
     (if length source_map > 50
      then [Print (''...and '' @ str_int (int (length source_map) - 50) @ '' more chunks.'')]
      else [])"

definition final_text :: "response \<Rightarrow> pyval" where
  "final_text resp = py_or (resp_response resp) (py_or (resp_text resp) (PStr (resp_str resp)))"

definition print_answer :: "response \<Rightarrow> 's event list" where
  "print_answer resp =
     [Print (newline # replicate 80 CHR ''=''),
      Print ''FINAL ANSWER'',
      Print (replicate 80 CHR ''=''),
      Print (str_pyval (final_text resp))]"

definition print_map_banner :: "'s event list" where
  "print_map_banner =
     [Print (newline # replicate 80 CHR ''-''),
      Print ''SOURCE MAP (match these to the [Source N] citations in the answer)'',
      Print (replicate 80 CHR ''-'')]"

definition loading_line :: "string list \<Rightarrow> string" where
  "loading_line pdf_paths = ''Loading '' @ str_int (int (length pdf_paths)) @ '' PDF file(s)...''"

text \<open>
  \<open>answer_with_citations\<close> returns the trace of the run and the exception that ended it,
  if any. An exception raised by a collaborator ends the run at that call.
\<close>

definition answer_with_citations ::
  "('d, 'i, 's) collaborators \<Rightarrow> string list \<Rightarrow> string \<Rightarrow> int \<Rightarrow> int \<Rightarrow> int \<Rightarrow> string
     \<Rightarrow> 's event list \<times> exn option" where
  "answer_with_citations env pdf_paths query top_k chunk_size chunk_overlap model =
     (let t1 = [Print (loading_line pdf_paths), Load_data pdf_paths] in
      case load_data env pdf_paths of
        Inl e \<Rightarrow> (t1, Some e)
      | Inr documents \<Rightarrow>
     (let t2 = t1 @ [From_documents] in
      case from_documents env documents of
        Inl e \<Rightarrow> (t2, Some e)
      | Inr index \<Rightarrow>
     (let t3 = t2 @ [Retrieve top_k query] in
      case retrieve env index top_k query of
        Inl e \<Rightarrow> (t3, Some e)
      | Inr retrieved \<Rightarrow>
          if retrieved = []
          then (t3 @ [Print ''No results retrieved. Try increasing --top-k or check your PDFs.''], None)
          else
     (case split_and_number (SentenceSplitter env) retrieved chunk_size chunk_overlap of
        Inl e \<Rightarrow> (t3, Some e)
      | Inr (numbered_nodes, source_map) \<Rightarrow>
     (let t4 = t3 @ [Print ''Generating answer...'', Asynthesize model query numbered_nodes] in
      case asynthesize env model query numbered_nodes of
        Inl e \<Rightarrow> (t4, Some e)
      | Inr resp \<Rightarrow>
          (t4 @ print_answer resp @ print_map_banner
              @ print_entries (repr_score env) source_map @ print_more source_map,
           None))))))"

text \<open>
  \<open>main\<close>, from the value of the environment variable \<open>OPENAI_API_KEY\<close> and the
  arguments as \<open>argparse\<close> returns them: the declarations of the parser give each of
  \<open>top_k\<close>, \<open>chunk_size\<close> and \<open>chunk_overlap\<close> the type \<open>int\<close> and no range. The result
  is the trace and the exit status. The string of an \<open>Exception\<close> is its \<open>repr\<close>.
\<close>

record args =
  args_pdf :: "string list"
  args_query :: string
  args_top_k :: int
  args_chunk_size :: int
  args_chunk_overlap :: int
  args_model :: string

definition main :: "('d, 'i, 's) collaborators \<Rightarrow> string option \<Rightarrow> args \<Rightarrow> 's event list \<times> int" where
  "main env api_key a =
     (if api_key = None \<or> api_key = Some []
      then ([Print ''Error: OPENAI_API_KEY is not set. Example:'',
             Print (''  export OPENAI_API_KEY='' @ [CHR 0x27] @ ''sk-...'' @ [CHR 0x27])], 1)
      else
        (case answer_with_citations env (args_pdf a) (args_query a) (args_top_k a)
                (args_chunk_size a) (args_chunk_overlap a) (args_model a) of
           (t, None) \<Rightarrow> (t, 0)
         | (t, Some KeyboardInterrupt) \<Rightarrow> (t @ [Print (newline # ''Interrupted.'')], 0)
         | (t, Some (Exception r)) \<Rightarrow> (t @ [Print (newline # ''Fatal error: '' @ r)], 1)))"

text \<open>The calls of the retriever and of the synthesizer in a trace.\<close>

fun is_retrieve :: "'s event \<Rightarrow> bool" where
  "is_retrieve (Retrieve k q) = True"
| "is_retrieve _ = False"

fun is_asynthesize :: "'s event \<Rightarrow> bool" where
  "is_asynthesize (Asynthesize m q ns) = True"
| "is_asynthesize _ = False"

definition retrieval_calls :: "'s event list \<Rightarrow> 's event list" where
  "retrieval_calls t = filter is_retrieve t"

definition completion_calls :: "'s event list \<Rightarrow> 's event list" where
  "completion_calls t = filter is_asynthesize t"



section \<open>Reference order of the chunks\<close>

text \<open>
  The chunks of all nodes, each with its parent node: nodes in retrieval order, the chunks
  of one node in the order the splitter returns them. \<open>numbered_from c\<close> pairs the
  elements of a list with the integers from \<open>c\<close> on. \<open>unit_for\<close> and \<open>entry_for\<close> are
  the node and the source map entry that the loop body builds for a numbered chunk.
\<close>

definition parent_chunks ::
  "splitter \<Rightarrow> 's node_with_score list \<Rightarrow> ('s node_with_score \<times> string) list" where
  "parent_chunks split_text nodes =
     concat (map (\<lambda>nws. map (Pair nws) (split_text (node_text nws))) nodes)"

fun numbered_from :: "int \<Rightarrow> 'a list \<Rightarrow> (int \<times> 'a) list" where
  "numbered_from c [] = []"
| "numbered_from c (x # xs) = (c, x) # numbered_from (c + 1) xs"

definition unit_for :: "int \<times> 's node_with_score \<times> string \<Rightarrow> 's node_with_score" where
  "unit_for x = (case x of (k, nws, chunk) \<Rightarrow>
     new_node k (file_path_of (metadata nws)) (page_of (metadata nws)) (score nws) chunk)"

definition entry_for :: "int \<times> 's node_with_score \<times> string \<Rightarrow> 's source_entry" where
  "entry_for x = (case x of (k, nws, chunk) \<Rightarrow>
     new_entry k (file_path_of (metadata nws)) (page_of (metadata nws)) (score nws) chunk)"

section \<open>Stub collaborators for concrete runs\<close>

text \<open>
  A splitter over characters: windows of \<open>width\<close> characters, each starting \<open>step\<close>
  characters after the one before. Its constructor raises when the overlap is not smaller
  than the chunk size.
\<close>

function windows :: "nat \<Rightarrow> nat \<Rightarrow> string \<Rightarrow> string list" where
  "windows width step s =
     (if s = [] \<or> step = 0 then []
      else if length s \<le> width then [s]
      else take width s # windows width step (drop step s))"
  by pat_completeness auto
termination
  by (relation "measure (\<lambda>(width, step, s). length s)") auto

declare windows.simps [simp del]

definition stub_splitter :: "int \<Rightarrow> int \<Rightarrow> exn + splitter" where
  "stub_splitter chunk_size chunk_overlap =
     (if chunk_overlap \<ge> chunk_size then Inl (Exception ''ValueError()'')
      else Inr (windows (nat chunk_size) (nat (chunk_size - chunk_overlap))))"



text \<open>
  Collaborators that always succeed: the retriever returns the first \<open>top_k\<close> of the given
  passages. The synthesizer, given no node, answers \<open>Empty Response\<close> and sends no prompt
  to the completion service; given nodes, it sends one prompt and answers with a fixed
  text. Scores are written as the text that \<open>str\<close> gives for them.
\<close>

definition empty_response :: response where
  "empty_response = \<lparr> resp_response = PStr ''Empty Response'', resp_text = PNone, resp_str = ''Empty Response'' \<rparr>"

definition stub_response :: response where
  "stub_response = \<lparr> resp_response = PStr ''Stub answer [Source 1].'', resp_text = PNone, resp_str = ''Stub answer [Source 1].'' \<rparr>"

definition stub_env :: "string node_with_score list \<Rightarrow> (unit, unit, string) collaborators" where
  "stub_env passages =
     \<lparr> load_data = (\<lambda>paths. Inr ()),
       from_documents = (\<lambda>documents. Inr ()),
       retrieve = (\<lambda>index k q. Inr (take (nat k) passages)),
       SentenceSplitter = stub_splitter,
       asynthesize = (\<lambda>m q ns. Inr (if ns = [] then empty_response else stub_response)),
       completion_prompts = (\<lambda>m q ns. if ns = [] then [] else [CITATION_QA_TEMPLATE (concat (map node_text ns)) q]),
       repr_score = (\<lambda>x. x) \<rparr>"

definition passage_a :: "string node_with_score" where
  "passage_a =
     \<lparr> node_text = ''abcdefghij'',
       metadata = [''file_path'' \<mapsto> PStr ''a.pdf'', ''page_label'' \<mapsto> PStr ''3''],
       score = Some ''0.5'' \<rparr>"

definition passage_b :: "string node_with_score" where
  "passage_b = \<lparr> node_text = ''xy'' @ [newline] @ ''z'', metadata = Map.empty, score = None \<rparr>"




definition passage_long :: "string node_with_score" where
  "passage_long = \<lparr> node_text = replicate 51 CHR ''a'', metadata = Map.empty, score = None \<rparr>"

definition stub_args :: "int \<Rightarrow> int \<Rightarrow> int \<Rightarrow> args" where
  "stub_args k cs co =
     \<lparr> args_pdf = [''a.pdf''], args_query = ''q'', args_top_k = k, args_chunk_size = cs,
       args_chunk_overlap = co, args_model = ''m'' \<rparr>"

section \<open>Properties of the numbering loops\<close>

lemma numbered_from_append:
  "numbered_from c (xs @ ys) = numbered_from c xs @ numbered_from (c + int (length xs)) ys"
  by (induction xs arbitrary: c) (simp_all add: add.assoc)

lemma length_numbered_from: "length (numbered_from c xs) = length xs"
  by (induction xs arbitrary: c) simp_all

lemma map_snd_numbered_from: "map snd (numbered_from c xs) = xs"
  by (induction xs arbitrary: c) simp_all

lemma map_fst_numbered_from: "map fst (numbered_from c xs) = [c..c + int (length xs) - 1]"
proof (induction xs arbitrary: c)
  case Nil
  show ?case by simp
next
  case (Cons x xs)
  have "[c..c + int (length (x # xs)) - 1] = c # [c + 1..c + 1 + int (length xs) - 1]"
    by (subst upto_rec1) (simp_all add: algebra_simps)
  with Cons show ?case by simp
qed

lemma numbered_from_nth:
  "i < length xs \<Longrightarrow> numbered_from c xs ! i = (c + int i, xs ! i)"
proof (induction xs arbitrary: c i)
  case Nil
  then show ?case by simp
next
  case (Cons x xs)
  then show ?case by (cases i) (simp_all add: algebra_simps)
qed

lemma numbered_from_map:
  "numbered_from c (map f xs) = map (\<lambda>(k, x). (k, f x)) (numbered_from c xs)"
  by (induction xs arbitrary: c) simp_all

lemma number_chunks_eq:
  "number_chunks nws fp pg chunks (c, nn, sm) =
     (c + int (length chunks),
      nn @ map (\<lambda>(k, ch). new_node k fp pg (score nws) ch) (numbered_from c chunks),
      sm @ map (\<lambda>(k, ch). new_entry k fp pg (score nws) ch) (numbered_from c chunks))"
  by (induction chunks arbitrary: c nn sm) (simp_all add: algebra_simps)

lemma parent_chunks_Cons:
  "parent_chunks split_text (nws # nodes) =
     map (Pair nws) (split_text (node_text nws)) @ parent_chunks split_text nodes"
  by (simp add: parent_chunks_def)

lemma number_nodes_eq:
  "number_nodes split_text nodes (c, nn, sm) =
     (c + int (length (parent_chunks split_text nodes)),
      nn @ map unit_for (numbered_from c (parent_chunks split_text nodes)),
      sm @ map entry_for (numbered_from c (parent_chunks split_text nodes)))"
proof (induction nodes arbitrary: c nn sm)
  case Nil
  show ?case by (simp add: parent_chunks_def)
next
  case (Cons nws nodes)
  show ?case
    by (simp add: parent_chunks_Cons number_chunks_eq Cons.IH numbered_from_append
        numbered_from_map length_numbered_from unit_for_def entry_for_def case_prod_unfold add.assoc)
qed

lemma split_and_number_Inr:
  assumes "ctor chunk_size chunk_overlap = Inr split_text"
  shows "split_and_number ctor nodes chunk_size chunk_overlap =
     Inr (map unit_for (numbered_from 1 (parent_chunks split_text nodes)),
          map entry_for (numbered_from 1 (parent_chunks split_text nodes)))"
  using assms by (simp add: split_and_number_def number_nodes_eq)

lemma split_and_number_Inl:
  assumes "ctor chunk_size chunk_overlap = Inl e"
  shows "split_and_number ctor nodes chunk_size chunk_overlap = Inl e"
  using assms by (simp add: split_and_number_def)

lemma source_index_unit_for: "source_index (unit_for (k, nws, chunk)) = PInt k"
  by (simp add: source_index_def unit_for_def new_node_def meta_get_def)

lemma sm_N_entry_for: "sm_N (entry_for (k, nws, chunk)) = k"
  by (simp add: entry_for_def new_entry_def)

lemma map_source_index_units:
  "map source_index (map unit_for (numbered_from c pcs)) = map PInt (map fst (numbered_from c pcs))"
  by (induction pcs arbitrary: c) (auto simp: source_index_unit_for)

lemma map_sm_N_entries:
  "map sm_N (map entry_for (numbered_from c pcs)) = map fst (numbered_from c pcs)"
  by (induction pcs arbitrary: c) (auto simp: sm_N_entry_for)

text \<open>
  C1: the labels that \<open>_split_and_number\<close> assigns, in the numbered nodes and in the
  source map alike, are the integers 1 to N in this order, N being the number of chunks of
  all nodes; the k-th node and the k-th entry are built from the k-th chunk in retrieval
  order and, within a node, in chunk order. So the labels are strictly increasing and
  none occurs twice.
\<close>

theorem labels_contiguous:
  assumes "ctor chunk_size chunk_overlap = Inr split_text"
    and "split_and_number ctor nodes chunk_size chunk_overlap = Inr (numbered_nodes, source_map)"
  shows "numbered_nodes = map unit_for (numbered_from 1 (parent_chunks split_text nodes))
       \<and> source_map = map entry_for (numbered_from 1 (parent_chunks split_text nodes))
       \<and> length numbered_nodes = length (parent_chunks split_text nodes)
       \<and> length source_map = length (parent_chunks split_text nodes)
       \<and> map source_index numbered_nodes = map PInt [1..int (length numbered_nodes)]
       \<and> map sm_N source_map = [1..int (length source_map)]
       \<and> sorted_wrt (<) (map sm_N source_map)
       \<and> distinct (map sm_N source_map)"
proof -
  let ?pcs = "parent_chunks split_text nodes"
  from assms have nn: "numbered_nodes = map unit_for (numbered_from 1 ?pcs)"
    and sm: "source_map = map entry_for (numbered_from 1 ?pcs)"
    by (simp_all add: split_and_number_Inr)
  have len: "length numbered_nodes = length ?pcs" "length source_map = length ?pcs"
    by (simp_all add: nn sm length_numbered_from)
  have fs: "map fst (numbered_from 1 ?pcs) = [1..int (length ?pcs)]"
    by (simp add: map_fst_numbered_from)
  have "map source_index numbered_nodes = map PInt (map fst (numbered_from 1 ?pcs))"
    unfolding nn by (rule map_source_index_units)
  then have idx: "map source_index numbered_nodes = map PInt [1..int (length numbered_nodes)]"
    by (simp only: fs len)
  have "map sm_N source_map = map fst (numbered_from 1 ?pcs)"
    unfolding sm by (rule map_sm_N_entries)
  then have lab: "map sm_N source_map = [1..int (length source_map)]"
    by (simp only: fs len)
  have "sorted_wrt (<) (map sm_N source_map)" "distinct (map sm_N source_map)"
    by (simp_all add: lab strict_sorted_iff)
  with nn sm len idx lab show ?thesis by blast
qed

text \<open>A run of the loops on two passages, the first split into three windows.\<close>

lemma parent_chunks_ab:
  "parent_chunks (windows 4 3) [passage_a, passage_b] =
     [(passage_a, ''abcd''), (passage_a, ''defg''), (passage_a, ''ghij''),
      (passage_b, ''xy'' @ [newline] @ ''z'')]"
  by (simp add: parent_chunks_def passage_a_def passage_b_def windows.simps)

lemma stub_splitter_4_1: "stub_splitter 4 1 = Inr (windows 4 3)"
  by (simp add: stub_splitter_def)

theorem labels_contiguous_witness:
  "stub_splitter 4 1 = Inr (windows 4 3)
   \<and> map source_index (fst (projr (split_and_number stub_splitter [passage_a, passage_b] 4 1)))
       = [PInt 1, PInt 2, PInt 3, PInt 4]
   \<and> map sm_N (snd (projr (split_and_number stub_splitter [passage_a, passage_b] 4 1))) = [1, 2, 3, 4]"
proof -
  obtain nn sm where r: "split_and_number stub_splitter [passage_a, passage_b] 4 1 = Inr (nn, sm)"
    using split_and_number_Inr [of stub_splitter 4 1 "windows 4 3", OF stub_splitter_4_1] by blast
  note c = labels_contiguous [of stub_splitter 4 1 "windows 4 3", OF stub_splitter_4_1 r]
  from c have "length nn = length (parent_chunks (windows 4 3) [passage_a, passage_b])"
    and "length sm = length (parent_chunks (windows 4 3) [passage_a, passage_b])"
    by blast+
  then have len: "length nn = 4" "length sm = 4"
    by (simp_all add: parent_chunks_ab)
  from c have "map source_index nn = map PInt [1..int (length nn)]"
    and "map sm_N sm = [1..int (length sm)]"
    by blast+
  then have "map source_index nn = [PInt 1, PInt 2, PInt 3, PInt 4]" "map sm_N sm = [1, 2, 3, 4]"
    by (simp_all add: len upto_rec1)
  with r stub_splitter_4_1 show ?thesis by simp
qed

section \<open>The numbered nodes and the source map, entry by entry\<close>

lemma unit_for_triple:
  "unit_for (k, nws, chunk) =
     new_node k (file_path_of (metadata nws)) (page_of (metadata nws)) (score nws) chunk"
  by (simp add: unit_for_def)

lemma entry_for_triple:
  "entry_for (k, nws, chunk) =
     new_entry k (file_path_of (metadata nws)) (page_of (metadata nws)) (score nws) chunk"
  by (simp add: entry_for_def)

lemma units_nth:
  assumes "i < length pcs"
  shows "map unit_for (numbered_from 1 pcs) ! i = unit_for (int i + 1, pcs ! i)"
  using assms by (simp add: length_numbered_from numbered_from_nth add.commute)

lemma entries_nth:
  assumes "i < length pcs"
  shows "map entry_for (numbered_from 1 pcs) ! i = entry_for (int i + 1, pcs ! i)"
  using assms by (simp add: length_numbered_from numbered_from_nth add.commute)

lemma replace_char_single:
  "replace_char old [new] s = map (\<lambda>c. if c = old then new else c) s"
  by (induction s) (simp_all add: replace_char_def)

lemma parent_chunks_parent:
  assumes "i < length (parent_chunks split_text nodes)"
  shows "fst (parent_chunks split_text nodes ! i) \<in> set nodes"
proof -
  have "parent_chunks split_text nodes ! i \<in> set (parent_chunks split_text nodes)"
    using assms by simp
  then show ?thesis by (auto simp: parent_chunks_def)
qed

lemma parent_chunks_chunk:
  assumes "i < length (parent_chunks split_text nodes)"
  shows "snd (parent_chunks split_text nodes ! i)
           \<in> set (split_text (node_text (fst (parent_chunks split_text nodes ! i))))"
proof -
  have "parent_chunks split_text nodes ! i \<in> set (parent_chunks split_text nodes)"
    using assms by simp
  then show ?thesis by (auto simp: parent_chunks_def)
qed

lemma run_ab:
  "split_and_number stub_splitter [passage_a, passage_b] 4 1 =
     Inr (map unit_for [(1, passage_a, ''abcd''), (2, passage_a, ''defg''), (3, passage_a, ''ghij''),
                        (4, passage_b, ''xy'' @ [newline] @ ''z'')],
          map entry_for [(1, passage_a, ''abcd''), (2, passage_a, ''defg''), (3, passage_a, ''ghij''),
                        (4, passage_b, ''xy'' @ [newline] @ ''z'')])"
  by (simp add: split_and_number_Inr [of stub_splitter 4 1 "windows 4 3", OF stub_splitter_4_1]
      parent_chunks_ab)

text \<open>
  C2 (as amended): the text stored in a numbered node is not the raw chunk. It is the
  chunk behind the prefix \<open>Source k:\<close> and a newline, k being the label of the node,
  and the prefix is put there by \<open>_split_and_number\<close> itself. The chunk is one of the
  chunks that the splitter returns for the text of the parent node.
\<close>

theorem unit_text_labeled:
  assumes "ctor chunk_size chunk_overlap = Inr split_text"
    and "split_and_number ctor nodes chunk_size chunk_overlap = Inr (numbered_nodes, source_map)"
    and "i < length numbered_nodes"
  shows "node_text (numbered_nodes ! i) =
           ''Source '' @ str_int (int i + 1) @ '':'' @ [newline] @ snd (parent_chunks split_text nodes ! i)
       \<and> source_index (numbered_nodes ! i) = PInt (int i + 1)
       \<and> snd (parent_chunks split_text nodes ! i)
           \<in> set (split_text (node_text (fst (parent_chunks split_text nodes ! i))))
       \<and> fst (parent_chunks split_text nodes ! i) \<in> set nodes"
proof -
  let ?pcs = "parent_chunks split_text nodes"
  from assms(1,2) have nn: "numbered_nodes = map unit_for (numbered_from 1 ?pcs)"
    by (simp add: split_and_number_Inr)
  with assms(3) have i: "i < length ?pcs"
    by (simp add: length_numbered_from)
  have u: "numbered_nodes ! i = unit_for (int i + 1, fst (?pcs ! i), snd (?pcs ! i))"
    unfolding nn using units_nth [OF i] by simp
  have "node_text (numbered_nodes ! i) =
      ''Source '' @ str_int (int i + 1) @ '':'' @ [newline] @ snd (?pcs ! i)"
    unfolding u unit_for_triple by (simp add: new_node_def labeled_text_def)
  moreover have "source_index (numbered_nodes ! i) = PInt (int i + 1)"
    unfolding u by (rule source_index_unit_for)
  ultimately show ?thesis
    using parent_chunks_chunk [OF i] parent_chunks_parent [OF i] by blast
qed

theorem unit_text_labeled_witness:
  "stub_splitter 4 1 = Inr (windows 4 3)
   \<and> (3::nat) < length (fst (projr (split_and_number stub_splitter [passage_a, passage_b] 4 1)))
   \<and> node_text (fst (projr (split_and_number stub_splitter [passage_a, passage_b] 4 1)) ! 3) =
        ''Source 4:'' @ [newline] @ ''xy'' @ [newline] @ ''z''"
proof -
  let ?nn = "fst (projr (split_and_number stub_splitter [passage_a, passage_b] 4 1))"
  let ?sm = "snd (projr (split_and_number stub_splitter [passage_a, passage_b] 4 1))"
  have r: "split_and_number stub_splitter [passage_a, passage_b] 4 1 = Inr (?nn, ?sm)"
    by (simp add: run_ab)
  have l: "(3::nat) < length ?nn"
    by (simp add: run_ab)
  from unit_text_labeled [of stub_splitter 4 1 "windows 4 3" "[passage_a, passage_b]" ?nn ?sm 3,
      OF stub_splitter_4_1 r l]
  have "node_text (?nn ! 3) = ''Source '' @ str_int (int 3 + 1) @ '':'' @ [newline] @
      snd (parent_chunks (windows 4 3) [passage_a, passage_b] ! 3)"
    by blast
  then have "node_text (?nn ! 3) = ''Source 4:'' @ [newline] @ ''xy'' @ [newline] @ ''z''"
    by (simp add: parent_chunks_ab str_int_def str_nat.simps digit_char_def)
  with l stub_splitter_4_1 show ?thesis by blast
qed

text \<open>C2 as stated fails: the stored texts of a run differ from the raw chunks.\<close>

theorem raw_text_counterexample:
  "map node_text (fst (projr (split_and_number stub_splitter [passage_a, passage_b] 4 1)))
     \<noteq> map snd (parent_chunks (windows 4 3) [passage_a, passage_b])"
  by (simp add: run_ab parent_chunks_ab unit_for_triple new_node_def labeled_text_def)

text \<open>
  C5: a numbered node carries the provenance of its parent node, whatever the chunk. Its
  \<open>file_path\<close> and \<open>page\<close> are the source file and the page that the loop reads from
  the parent's metadata, its score is the parent's score, and the entry of the source map
  at the same position carries the same file and page.
\<close>

theorem provenance_preserved:
  assumes "ctor chunk_size chunk_overlap = Inr split_text"
    and "split_and_number ctor nodes chunk_size chunk_overlap = Inr (numbered_nodes, source_map)"
    and "i < length numbered_nodes"
  shows "fst (parent_chunks split_text nodes ! i) \<in> set nodes
       \<and> meta_get (metadata (numbered_nodes ! i)) ''file_path''
           = file_path_of (metadata (fst (parent_chunks split_text nodes ! i)))
       \<and> meta_get (metadata (numbered_nodes ! i)) ''page''
           = page_of (metadata (fst (parent_chunks split_text nodes ! i)))
       \<and> score (numbered_nodes ! i) = score (fst (parent_chunks split_text nodes ! i))
       \<and> sm_file_path (source_map ! i) = file_path_of (metadata (fst (parent_chunks split_text nodes ! i)))
       \<and> sm_page (source_map ! i) = page_of (metadata (fst (parent_chunks split_text nodes ! i)))"
proof -
  let ?pcs = "parent_chunks split_text nodes"
  from assms(1,2) have nn: "numbered_nodes = map unit_for (numbered_from 1 ?pcs)"
    and sm: "source_map = map entry_for (numbered_from 1 ?pcs)"
    by (simp_all add: split_and_number_Inr)
  from nn assms(3) have i: "i < length ?pcs"
    by (simp add: length_numbered_from)
  have u: "numbered_nodes ! i = unit_for (int i + 1, fst (?pcs ! i), snd (?pcs ! i))"
    unfolding nn using units_nth [OF i] by simp
  have e: "source_map ! i = entry_for (int i + 1, fst (?pcs ! i), snd (?pcs ! i))"
    unfolding sm using entries_nth [OF i] by simp
  have "meta_get (metadata (numbered_nodes ! i)) ''file_path'' = file_path_of (metadata (fst (?pcs ! i)))"
    and "meta_get (metadata (numbered_nodes ! i)) ''page'' = page_of (metadata (fst (?pcs ! i)))"
    and "score (numbered_nodes ! i) = score (fst (?pcs ! i))"
    unfolding u unit_for_triple by (simp_all add: new_node_def meta_get_def)
  moreover have "sm_file_path (source_map ! i) = file_path_of (metadata (fst (?pcs ! i)))"
    and "sm_page (source_map ! i) = page_of (metadata (fst (?pcs ! i)))"
    unfolding e entry_for_triple by (simp_all add: new_entry_def)
  ultimately show ?thesis
    using parent_chunks_parent [OF i] by blast
qed

lemma file_path_of_a: "file_path_of (metadata passage_a) = PStr ''a.pdf''"
  by (simp add: file_path_of_def passage_a_def meta_get_def py_or_def)

lemma page_of_a: "page_of (metadata passage_a) = PStr ''3''"
  by (simp add: page_of_def passage_a_def meta_get_def py_or_def)

theorem provenance_preserved_witness:
  "stub_splitter 4 1 = Inr (windows 4 3)
   \<and> (1::nat) < length (fst (projr (split_and_number stub_splitter [passage_a, passage_b] 4 1)))
   \<and> meta_get (metadata (fst (projr (split_and_number stub_splitter [passage_a, passage_b] 4 1)) ! 1))
        ''file_path'' = PStr ''a.pdf''
   \<and> meta_get (metadata (fst (projr (split_and_number stub_splitter [passage_a, passage_b] 4 1)) ! 1))
        ''page'' = PStr ''3''
   \<and> score (fst (projr (split_and_number stub_splitter [passage_a, passage_b] 4 1)) ! 1) = Some ''0.5''"
proof -
  let ?nn = "fst (projr (split_and_number stub_splitter [passage_a, passage_b] 4 1))"
  let ?sm = "snd (projr (split_and_number stub_splitter [passage_a, passage_b] 4 1))"
  have r: "split_and_number stub_splitter [passage_a, passage_b] 4 1 = Inr (?nn, ?sm)"
    by (simp add: run_ab)
  have l: "(1::nat) < length ?nn"
    by (simp add: run_ab)
  have p: "fst (parent_chunks (windows 4 3) [passage_a, passage_b] ! 1) = passage_a"
    by (simp add: parent_chunks_ab)
  note c = provenance_preserved [of stub_splitter 4 1 "windows 4 3" "[passage_a, passage_b]" ?nn ?sm 1,
      OF stub_splitter_4_1 r l]
  from c have "meta_get (metadata (?nn ! 1)) ''file_path'' = file_path_of (metadata passage_a)"
    and "meta_get (metadata (?nn ! 1)) ''page'' = page_of (metadata passage_a)"
    and "score (?nn ! 1) = score passage_a"
    unfolding p by blast+
  then have "meta_get (metadata (?nn ! 1)) ''file_path'' = PStr ''a.pdf''"
    and "meta_get (metadata (?nn ! 1)) ''page'' = PStr ''3''"
    and "score (?nn ! 1) = Some ''0.5''"
    by (simp_all add: file_path_of_a page_of_a) (simp add: passage_a_def)
  with l stub_splitter_4_1 show ?thesis by blast
qed

lemma parent_ab_3:
  "parent_chunks (windows 4 3) [passage_a, passage_b] ! 3 = (passage_b, ''xy'' @ [newline] @ ''z'')"
  by (simp add: parent_chunks_ab)

lemma metadata_b: "metadata passage_b = Map.empty"
  by (simp add: passage_b_def)

lemma score_b: "score passage_b = None"
  by (simp add: passage_b_def)

text \<open>
  C6: the source map has one entry for each numbered node, at the same position and so in
  label order. The entry has the label, the file and the page of its node, and the score
  of the node, which is the score of the parent as it is: a score that is \<open>None\<close> stays
  \<open>None\<close>. The snippet of the entry is the preview of the text of its node: the first 240
  characters of the chunk that the node stores behind its prefix, newlines replaced by
  spaces, so at most 240 characters.
\<close>

theorem source_map_entry_per_unit:
  assumes "ctor chunk_size chunk_overlap = Inr split_text"
    and "split_and_number ctor nodes chunk_size chunk_overlap = Inr (numbered_nodes, source_map)"
  shows "length source_map = length numbered_nodes
       \<and> map sm_N source_map = [1..int (length numbered_nodes)]
       \<and> (\<forall>i < length numbered_nodes.
             PInt (sm_N (source_map ! i)) = source_index (numbered_nodes ! i)
           \<and> sm_file_path (source_map ! i) = meta_get (metadata (numbered_nodes ! i)) ''file_path''
           \<and> sm_page (source_map ! i) = meta_get (metadata (numbered_nodes ! i)) ''page''
           \<and> sm_score (source_map ! i) = score (numbered_nodes ! i)
           \<and> sm_score (source_map ! i) = score (fst (parent_chunks split_text nodes ! i))
           \<and> node_text (numbered_nodes ! i)
               = labeled_text (sm_N (source_map ! i)) (snd (parent_chunks split_text nodes ! i))
           \<and> sm_snippet (source_map ! i)
               = map (\<lambda>c. if c = newline then CHR '' '' else c)
                   (take 240 (snd (parent_chunks split_text nodes ! i)))
           \<and> length (sm_snippet (source_map ! i)) \<le> 240)"
proof -
  let ?pcs = "parent_chunks split_text nodes"
  from assms have nn: "numbered_nodes = map unit_for (numbered_from 1 ?pcs)"
    and sm: "source_map = map entry_for (numbered_from 1 ?pcs)"
    by (simp_all add: split_and_number_Inr)
  have len: "length numbered_nodes = length ?pcs" "length source_map = length ?pcs"
    by (simp_all add: nn sm length_numbered_from)
  have "map sm_N source_map = map fst (numbered_from 1 ?pcs)"
    unfolding sm by (rule map_sm_N_entries)
  then have lab: "map sm_N source_map = [1..int (length numbered_nodes)]"
    by (simp add: map_fst_numbered_from len)
  have each: "PInt (sm_N (source_map ! i)) = source_index (numbered_nodes ! i)
           \<and> sm_file_path (source_map ! i) = meta_get (metadata (numbered_nodes ! i)) ''file_path''
           \<and> sm_page (source_map ! i) = meta_get (metadata (numbered_nodes ! i)) ''page''
           \<and> sm_score (source_map ! i) = score (numbered_nodes ! i)
           \<and> sm_score (source_map ! i) = score (fst (?pcs ! i))
           \<and> node_text (numbered_nodes ! i) = labeled_text (sm_N (source_map ! i)) (snd (?pcs ! i))
           \<and> sm_snippet (source_map ! i)
               = map (\<lambda>c. if c = newline then CHR '' '' else c) (take 240 (snd (?pcs ! i)))
           \<and> length (sm_snippet (source_map ! i)) \<le> 240"
    if "i < length numbered_nodes" for i
  proof -
    from that have i: "i < length ?pcs" by (simp add: len)
    have u: "numbered_nodes ! i = unit_for (int i + 1, fst (?pcs ! i), snd (?pcs ! i))"
      unfolding nn using units_nth [OF i] by simp
    have e: "source_map ! i = entry_for (int i + 1, fst (?pcs ! i), snd (?pcs ! i))"
      unfolding sm using entries_nth [OF i] by simp
    show ?thesis
      unfolding u e unit_for_triple entry_for_triple
      by (simp add: new_node_def new_entry_def source_index_def meta_get_def replace_char_single)
  qed
  have "length source_map = length numbered_nodes"
    by (simp add: len)
  moreover note lab
  moreover have "\<forall>i < length numbered_nodes.
             PInt (sm_N (source_map ! i)) = source_index (numbered_nodes ! i)
           \<and> sm_file_path (source_map ! i) = meta_get (metadata (numbered_nodes ! i)) ''file_path''
           \<and> sm_page (source_map ! i) = meta_get (metadata (numbered_nodes ! i)) ''page''
           \<and> sm_score (source_map ! i) = score (numbered_nodes ! i)
           \<and> sm_score (source_map ! i) = score (fst (?pcs ! i))
           \<and> node_text (numbered_nodes ! i) = labeled_text (sm_N (source_map ! i)) (snd (?pcs ! i))
           \<and> sm_snippet (source_map ! i)
               = map (\<lambda>c. if c = newline then CHR '' '' else c) (take 240 (snd (?pcs ! i)))
           \<and> length (sm_snippet (source_map ! i)) \<le> 240"
    using each by blast
  ultimately show ?thesis by blast
qed

theorem source_map_entry_per_unit_witness:
  "stub_splitter 4 1 = Inr (windows 4 3)
   \<and> length (snd (projr (split_and_number stub_splitter [passage_a, passage_b] 4 1))) = 4
   \<and> length (fst (projr (split_and_number stub_splitter [passage_a, passage_b] 4 1))) = 4
   \<and> (3::nat) < length (fst (projr (split_and_number stub_splitter [passage_a, passage_b] 4 1)))
   \<and> sm_score (snd (projr (split_and_number stub_splitter [passage_a, passage_b] 4 1)) ! 3) = None
   \<and> sm_N (snd (projr (split_and_number stub_splitter [passage_a, passage_b] 4 1)) ! 3) = 4
   \<and> sm_snippet (snd (projr (split_and_number stub_splitter [passage_a, passage_b] 4 1)) ! 3) = ''xy z''"
proof -
  let ?nn = "fst (projr (split_and_number stub_splitter [passage_a, passage_b] 4 1))"
  let ?sm = "snd (projr (split_and_number stub_splitter [passage_a, passage_b] 4 1))"
  have r: "split_and_number stub_splitter [passage_a, passage_b] 4 1 = Inr (?nn, ?sm)"
    by (simp add: run_ab)
  have l: "length ?nn = 4" "(3::nat) < length ?nn"
    by (simp_all add: run_ab)
  have p: "score (fst (parent_chunks (windows 4 3) [passage_a, passage_b] ! 3)) = None"
    unfolding parent_ab_3 by (simp add: score_b)
  have q: "source_index (?nn ! 3) = PInt 4"
    by (simp add: run_ab source_index_unit_for)
  note c = source_map_entry_per_unit [of stub_splitter 4 1 "windows 4 3" "[passage_a, passage_b]" ?nn ?sm,
      OF stub_splitter_4_1 r]
  from c have "length ?sm = length ?nn" by blast
  moreover from c l(2) have "sm_score (?sm ! 3) = score (fst (parent_chunks (windows 4 3) [passage_a, passage_b] ! 3))"
    by blast
  moreover from c l(2) have "PInt (sm_N (?sm ! 3)) = source_index (?nn ! 3)"
    by blast
  ultimately have f: "length ?sm = 4" "sm_score (?sm ! 3) = None" "sm_N (?sm ! 3) = 4"
    using l p q by simp_all
  from c l(2) have "sm_snippet (?sm ! 3) = map (\<lambda>c. if c = newline then CHR '' '' else c)
      (take 240 (snd (parent_chunks (windows 4 3) [passage_a, passage_b] ! 3)))"
    by blast
  then have "sm_snippet (?sm ! 3) = ''xy z''"
    unfolding parent_ab_3 by (simp add: newline_def)
  with f l stub_splitter_4_1 show ?thesis by blast
qed

text \<open>
  C7 (as amended): when the metadata of the parent node has no value that counts as true
  under \<open>page_label\<close>, \<open>page_number\<close> or \<open>page\<close>, in particular when these keys are
  missing, the page of every numbered node and source map entry of that parent is the
  fixed string \<open>?\<close>.
\<close>

theorem missing_page_sentinel:
  assumes "ctor chunk_size chunk_overlap = Inr split_text"
    and "split_and_number ctor nodes chunk_size chunk_overlap = Inr (numbered_nodes, source_map)"
    and "i < length numbered_nodes"
    and "\<not> truthy (meta_get (metadata (fst (parent_chunks split_text nodes ! i))) ''page_label'')"
    and "\<not> truthy (meta_get (metadata (fst (parent_chunks split_text nodes ! i))) ''page_number'')"
    and "\<not> truthy (meta_get (metadata (fst (parent_chunks split_text nodes ! i))) ''page'')"
  shows "meta_get (metadata (numbered_nodes ! i)) ''page'' = PStr ''?''
       \<and> sm_page (source_map ! i) = PStr ''?''"
proof -
  let ?pcs = "parent_chunks split_text nodes"
  from assms(1,2) have nn: "numbered_nodes = map unit_for (numbered_from 1 ?pcs)"
    and sm: "source_map = map entry_for (numbered_from 1 ?pcs)"
    by (simp_all add: split_and_number_Inr)
  from nn assms(3) have i: "i < length ?pcs"
    by (simp add: length_numbered_from)
  have u: "numbered_nodes ! i = unit_for (int i + 1, fst (?pcs ! i), snd (?pcs ! i))"
    unfolding nn using units_nth [OF i] by simp
  have e: "source_map ! i = entry_for (int i + 1, fst (?pcs ! i), snd (?pcs ! i))"
    unfolding sm using entries_nth [OF i] by simp
  have pg: "page_of (metadata (fst (?pcs ! i))) = PStr ''?''"
    using assms(4-6) by (simp add: page_of_def py_or_def)
  show ?thesis
    unfolding u e unit_for_triple entry_for_triple
    by (simp add: new_node_def new_entry_def meta_get_def pg)
qed

theorem missing_page_sentinel_witness:
  "stub_splitter 4 1 = Inr (windows 4 3)
   \<and> (3::nat) < length (fst (projr (split_and_number stub_splitter [passage_a, passage_b] 4 1)))
   \<and> \<not> truthy (meta_get (metadata (fst (parent_chunks (windows 4 3) [passage_a, passage_b] ! 3))) ''page_label'')
   \<and> \<not> truthy (meta_get (metadata (fst (parent_chunks (windows 4 3) [passage_a, passage_b] ! 3))) ''page_number'')
   \<and> \<not> truthy (meta_get (metadata (fst (parent_chunks (windows 4 3) [passage_a, passage_b] ! 3))) ''page'')
   \<and> meta_get (metadata (fst (projr (split_and_number stub_splitter [passage_a, passage_b] 4 1)) ! 3)) ''page''
        = PStr ''?''
   \<and> sm_page (snd (projr (split_and_number stub_splitter [passage_a, passage_b] 4 1)) ! 3) = PStr ''?''"
proof -
  let ?nn = "fst (projr (split_and_number stub_splitter [passage_a, passage_b] 4 1))"
  let ?sm = "snd (projr (split_and_number stub_splitter [passage_a, passage_b] 4 1))"
  let ?p = "fst (parent_chunks (windows 4 3) [passage_a, passage_b] ! 3)"
  have r: "split_and_number stub_splitter [passage_a, passage_b] 4 1 = Inr (?nn, ?sm)"
    by (simp add: run_ab)
  have l: "(3::nat) < length ?nn"
    by (simp add: run_ab)
  have h: "\<not> truthy (meta_get (metadata ?p) ''page_label'')"
    "\<not> truthy (meta_get (metadata ?p) ''page_number'')"
    "\<not> truthy (meta_get (metadata ?p) ''page'')"
    unfolding parent_ab_3 by (simp_all add: metadata_b meta_get_def)
  note c = missing_page_sentinel [of stub_splitter 4 1 "windows 4 3" "[passage_a, passage_b]" ?nn ?sm 3,
      OF stub_splitter_4_1 r l h]
  with l h stub_splitter_4_1 show ?thesis by blast
qed

text \<open>
  C7 as stated fails: a node of a parent with empty metadata does not have the page
  \<open>unknown\<close>.
\<close>

theorem unknown_sentinel_counterexample:
  "meta_get (metadata (fst (projr (split_and_number stub_splitter [passage_a, passage_b] 4 1)) ! 3)) ''page''
     \<noteq> PStr ''unknown''
   \<and> metadata (fst (parent_chunks (windows 4 3) [passage_a, passage_b] ! 3)) = Map.empty"
  unfolding run_ab parent_ab_3
  by (simp add: unit_for_triple new_node_def meta_get_def page_of_def py_or_def metadata_b)

text \<open>
  C10: the snippet of a source map entry is the first 240 characters of the raw chunk,
  the chunk that the node with the same label stores behind its prefix, with every
  newline replaced by a space. So it is at most 240 characters long and has no newline.
\<close>

theorem snippet_preview:
  assumes "ctor chunk_size chunk_overlap = Inr split_text"
    and "split_and_number ctor nodes chunk_size chunk_overlap = Inr (numbered_nodes, source_map)"
    and "i < length source_map"
  shows "sm_snippet (source_map ! i)
           = map (\<lambda>c. if c = newline then CHR '' '' else c)
               (take 240 (snd (parent_chunks split_text nodes ! i)))
       \<and> node_text (numbered_nodes ! i)
           = labeled_text (sm_N (source_map ! i)) (snd (parent_chunks split_text nodes ! i))
       \<and> length (sm_snippet (source_map ! i)) \<le> 240
       \<and> newline \<notin> set (sm_snippet (source_map ! i))"
proof -
  let ?pcs = "parent_chunks split_text nodes"
  from assms(1,2) have nn: "numbered_nodes = map unit_for (numbered_from 1 ?pcs)"
    and sm: "source_map = map entry_for (numbered_from 1 ?pcs)"
    by (simp_all add: split_and_number_Inr)
  from sm assms(3) have i: "i < length ?pcs"
    by (simp add: length_numbered_from)
  have u: "numbered_nodes ! i = unit_for (int i + 1, fst (?pcs ! i), snd (?pcs ! i))"
    unfolding nn using units_nth [OF i] by simp
  have e: "source_map ! i = entry_for (int i + 1, fst (?pcs ! i), snd (?pcs ! i))"
    unfolding sm using entries_nth [OF i] by simp
  have s: "sm_snippet (source_map ! i)
      = map (\<lambda>c. if c = newline then CHR '' '' else c) (take 240 (snd (?pcs ! i)))"
    unfolding e entry_for_triple by (simp add: new_entry_def replace_char_single)
  have t: "node_text (numbered_nodes ! i) = labeled_text (sm_N (source_map ! i)) (snd (?pcs ! i))"
    unfolding u e unit_for_triple entry_for_triple by (simp add: new_node_def new_entry_def)
  have "length (sm_snippet (source_map ! i)) \<le> 240"
    by (simp add: s)
  moreover have "newline \<notin> set (sm_snippet (source_map ! i))"
    by (auto simp: s newline_def)
  ultimately show ?thesis using s t by blast
qed

theorem snippet_preview_witness:
  "stub_splitter 4 1 = Inr (windows 4 3)
   \<and> (3::nat) < length (snd (projr (split_and_number stub_splitter [passage_a, passage_b] 4 1)))
   \<and> snd (parent_chunks (windows 4 3) [passage_a, passage_b] ! 3) = ''xy'' @ [newline] @ ''z''
   \<and> sm_snippet (snd (projr (split_and_number stub_splitter [passage_a, passage_b] 4 1)) ! 3) = ''xy z''"
proof -
  let ?nn = "fst (projr (split_and_number stub_splitter [passage_a, passage_b] 4 1))"
  let ?sm = "snd (projr (split_and_number stub_splitter [passage_a, passage_b] 4 1))"
  have r: "split_and_number stub_splitter [passage_a, passage_b] 4 1 = Inr (?nn, ?sm)"
    by (simp add: run_ab)
  have l: "(3::nat) < length ?sm"
    by (simp add: run_ab)
  have p: "snd (parent_chunks (windows 4 3) [passage_a, passage_b] ! 3) = ''xy'' @ [newline] @ ''z''"
    by (simp add: parent_chunks_ab)
  note c = snippet_preview [of stub_splitter 4 1 "windows 4 3" "[passage_a, passage_b]" ?nn ?sm 3,
      OF stub_splitter_4_1 r l]
  from c have "sm_snippet (?sm ! 3) = map (\<lambda>c. if c = newline then CHR '' '' else c)
      (take 240 (snd (parent_chunks (windows 4 3) [passage_a, passage_b] ! 3)))"
    by blast
  then have "sm_snippet (?sm ! 3) = ''xy z''"
    unfolding p by (simp add: newline_def)
  with l p stub_splitter_4_1 show ?thesis by blast
qed

section \<open>The paths of a run\<close>

lemma run_no_results:
  assumes "load_data env pdf_paths = Inr documents"
    and "from_documents env documents = Inr index"
    and "retrieve env index k q = Inr []"
  shows "answer_with_citations env pdf_paths q k cs co m =
     ([Print (loading_line pdf_paths), Load_data pdf_paths, From_documents, Retrieve k q,
       Print ''No results retrieved. Try increasing --top-k or check your PDFs.''], None)"
  using assms by (simp add: answer_with_citations_def loading_line_def)

lemma run_splitter_fails:
  assumes "load_data env pdf_paths = Inr documents"
    and "from_documents env documents = Inr index"
    and "retrieve env index k q = Inr retrieved"
    and "retrieved \<noteq> []"
    and "SentenceSplitter env cs co = Inl e"
  shows "answer_with_citations env pdf_paths q k cs co m =
     ([Print (loading_line pdf_paths), Load_data pdf_paths, From_documents, Retrieve k q], Some e)"
  using assms by (simp add: answer_with_citations_def loading_line_def split_and_number_Inl)

lemma run_synthesizer_fails:
  assumes "load_data env pdf_paths = Inr documents"
    and "from_documents env documents = Inr index"
    and "retrieve env index k q = Inr retrieved"
    and "retrieved \<noteq> []"
    and "split_and_number (SentenceSplitter env) retrieved cs co = Inr (numbered_nodes, source_map)"
    and "asynthesize env m q numbered_nodes = Inl e"
  shows "answer_with_citations env pdf_paths q k cs co m =
     ([Print (loading_line pdf_paths), Load_data pdf_paths, From_documents, Retrieve k q,
       Print ''Generating answer...'', Asynthesize m q numbered_nodes], Some e)"
  using assms by (simp add: answer_with_citations_def loading_line_def)

lemma run_success:
  assumes "load_data env pdf_paths = Inr documents"
    and "from_documents env documents = Inr index"
    and "retrieve env index k q = Inr retrieved"
    and "retrieved \<noteq> []"
    and "split_and_number (SentenceSplitter env) retrieved cs co = Inr (numbered_nodes, source_map)"
    and "asynthesize env m q numbered_nodes = Inr resp"
  shows "answer_with_citations env pdf_paths q k cs co m =
     ([Print (loading_line pdf_paths), Load_data pdf_paths, From_documents, Retrieve k q,
       Print ''Generating answer...'', Asynthesize m q numbered_nodes]
      @ print_answer resp @ print_map_banner
      @ print_entries (repr_score env) source_map @ print_more source_map, None)"
  using assms by (simp add: answer_with_citations_def loading_line_def)

lemma retrieval_calls_prints:
  "retrieval_calls (print_answer resp @ print_map_banner @ print_entries repr sm @ print_more sm) = []"
  by (simp add: retrieval_calls_def print_answer_def print_map_banner_def print_entries_def
      print_more_def filter_concat)

lemma completion_calls_prints:
  "completion_calls (print_answer resp @ print_map_banner @ print_entries repr sm @ print_more sm) = []"
  by (simp add: completion_calls_def print_answer_def print_map_banner_def print_entries_def
      print_more_def filter_concat)

lemma run_retrieval_calls:
  assumes "load_data env pdf_paths = Inr documents"
    and "from_documents env documents = Inr index"
  shows "retrieval_calls (fst (answer_with_citations env pdf_paths q k cs co m)) = [Retrieve k q]"
proof (cases "retrieve env index k q")
  case (Inl e)
  with assms show ?thesis
    by (simp add: answer_with_citations_def retrieval_calls_def)
next
  case (Inr retrieved)
  note r = this
  show ?thesis
  proof (cases "retrieved = []")
    case True
    with assms r show ?thesis
      by (simp add: run_no_results retrieval_calls_def)
  next
    case False
    note ne = this
    show ?thesis
    proof (cases "split_and_number (SentenceSplitter env) retrieved cs co")
      case (Inl e)
      with assms r ne show ?thesis
        by (simp add: answer_with_citations_def retrieval_calls_def)
    next
      case (Inr res)
      obtain nn sm where res: "res = (nn, sm)" by (cases res)
      note s = Inr [unfolded res]
      show ?thesis
      proof (cases "asynthesize env m q nn")
        case (Inl e)
        from run_synthesizer_fails [OF assms r ne s Inl] show ?thesis
          by (simp add: retrieval_calls_def)
      next
        case (Inr resp)
        have "retrieval_calls (fst (answer_with_citations env pdf_paths q k cs co m)) =
            [Retrieve k q] @ retrieval_calls (print_answer resp @ print_map_banner
              @ print_entries (repr_score env) sm @ print_more sm)"
          unfolding run_success [OF assms r ne s Inr]
          by (simp add: retrieval_calls_def)
        then show ?thesis
          by (simp add: retrieval_calls_prints)
      qed
    qed
  qed
qed

text \<open>
  C3 (as amended): the program does not check the configuration before it retrieves. Once
  the documents are loaded and indexed, the retriever is called, once, with the \<open>top_k\<close>
  given, whatever the chunk size, the chunk overlap and \<open>top_k\<close> are. The chunk size and
  the overlap are first used when the splitter is constructed, after a retrieval that
  returned passages; when that constructor raises, the run ends with its exception, after
  the retrieval and before any call of the synthesizer.
\<close>

theorem config_checked_after_retrieval:
  assumes "load_data env pdf_paths = Inr documents"
    and "from_documents env documents = Inr index"
  shows "retrieval_calls (fst (answer_with_citations env pdf_paths q k cs co m)) = [Retrieve k q]
       \<and> (\<forall>retrieved e.
             retrieve env index k q = Inr retrieved \<and> retrieved \<noteq> []
               \<and> SentenceSplitter env cs co = Inl e
             \<longrightarrow> snd (answer_with_citations env pdf_paths q k cs co m) = Some e
               \<and> completion_calls (fst (answer_with_citations env pdf_paths q k cs co m)) = [])"
proof -
  have "snd (answer_with_citations env pdf_paths q k cs co m) = Some e
      \<and> completion_calls (fst (answer_with_citations env pdf_paths q k cs co m)) = []"
    if "retrieve env index k q = Inr retrieved" "retrieved \<noteq> []"
      "SentenceSplitter env cs co = Inl e" for retrieved e
    unfolding run_splitter_fails [OF assms that]
    by (simp add: completion_calls_def)
  with run_retrieval_calls [OF assms] show ?thesis by blast
qed

lemma stub_env_simps:
  "load_data (stub_env ps) paths = Inr ()"
  "from_documents (stub_env ps) d = Inr ()"
  "retrieve (stub_env ps) i k q = Inr (take (nat k) ps)"
  "SentenceSplitter (stub_env ps) = stub_splitter"
  "asynthesize (stub_env ps) m q ns = Inr (if ns = [] then empty_response else stub_response)"
  "completion_prompts (stub_env ps) m q [] = []"
  "repr_score (stub_env ps) = (\<lambda>x. x)"
  by (simp_all add: stub_env_def)

theorem config_checked_after_retrieval_witness:
  "load_data (stub_env [passage_a]) [''a.pdf''] = Inr ()
   \<and> from_documents (stub_env [passage_a]) () = Inr ()
   \<and> retrieve (stub_env [passage_a]) () 4 ''q'' = Inr [passage_a]
   \<and> [passage_a] \<noteq> []
   \<and> SentenceSplitter (stub_env [passage_a]) 10 20 = Inl (Exception ''ValueError()'')
   \<and> retrieval_calls (fst (answer_with_citations (stub_env [passage_a]) [''a.pdf''] ''q'' 4 10 20 ''m''))
        = [Retrieve 4 ''q'']
   \<and> snd (answer_with_citations (stub_env [passage_a]) [''a.pdf''] ''q'' 4 10 20 ''m'')
        = Some (Exception ''ValueError()'')
   \<and> completion_calls (fst (answer_with_citations (stub_env [passage_a]) [''a.pdf''] ''q'' 4 10 20 ''m''))
        = []"
proof -
  have h: "load_data (stub_env [passage_a]) [''a.pdf''] = Inr ()"
    "from_documents (stub_env [passage_a]) () = Inr ()"
    by (simp_all add: stub_env_simps)
  have g: "retrieve (stub_env [passage_a]) () 4 ''q'' = Inr [passage_a]"
    "[passage_a] \<noteq> []"
    "SentenceSplitter (stub_env [passage_a]) 10 20 = Inl (Exception ''ValueError()'')"
    by (simp_all add: stub_env_simps stub_splitter_def)
  note c = config_checked_after_retrieval [of "stub_env [passage_a]" "[''a.pdf'']" "()" "()"
      "''q''" 4 10 20 "''m''", OF h]
  from c g show ?thesis
    using h by blast
qed

text \<open>
  C3 as stated fails: a run of the program with the overlap above the chunk size calls
  the retriever before it fails, and a run with \<open>top_k\<close> zero calls it and ends normally.
\<close>

theorem retrieval_before_rejection_counterexample:
  "main (stub_env [passage_a]) (Some ''sk-test'') (stub_args 4 10 20) =
     ([Print ''Loading 1 PDF file(s)...'', Load_data [''a.pdf''], From_documents, Retrieve 4 ''q'',
       Print (newline # ''Fatal error: ValueError()'')], 1)
   \<and> retrieval_calls (fst (main (stub_env [passage_a]) (Some ''sk-test'') (stub_args 4 10 20))) \<noteq> []
   \<and> main (stub_env [passage_a]) (Some ''sk-test'') (stub_args 0 512 20) =
     ([Print ''Loading 1 PDF file(s)...'', Load_data [''a.pdf''], From_documents, Retrieve 0 ''q'',
       Print ''No results retrieved. Try increasing --top-k or check your PDFs.''], 0)
   \<and> retrieval_calls (fst (main (stub_env [passage_a]) (Some ''sk-test'') (stub_args 0 512 20))) \<noteq> []"
  by (simp add: main_def stub_args_def answer_with_citations_def stub_env_simps stub_splitter_def
      split_and_number_def loading_line_def str_int_def str_nat.simps digit_char_def
      retrieval_calls_def)





section \<open>The printed source map\<close>

lemma length_pairs: "length (concat (map (\<lambda>x. [f x, g x]) xs)) = 2 * length xs"
  by (induction xs) simp_all

lemma nth_pairs:
  assumes "i < length xs"
  shows "concat (map (\<lambda>x. [f x, g x]) xs) ! (2 * i) = f (xs ! i)
       \<and> concat (map (\<lambda>x. [f x, g x]) xs) ! (2 * i + 1) = g (xs ! i)"
  using assms
proof (induction xs arbitrary: i)
  case Nil
  then show ?case by simp
next
  case (Cons x xs)
  show ?case
  proof (cases i)
    case 0
    then show ?thesis by simp
  next
    case (Suc j)
    with Cons.prems have "j < length xs" by simp
    from Cons.IH [OF this] show ?thesis
      by (simp add: Suc)
  qed
qed

lemma length_print_entries: "length (print_entries repr sm) = 2 * min 50 (length sm)"
  by (simp add: print_entries_def length_pairs min.commute)

lemma nth_print_entries:
  assumes "i < min 50 (length sm)"
  shows "print_entries repr sm ! (2 * i) = Print (source_line repr (sm ! i))
       \<and> print_entries repr sm ! (2 * i + 1) = Print (snippet_line (sm ! i))"
proof -
  from assms have "i < length (take 50 sm)" by simp
  from nth_pairs [OF this, of "\<lambda>s. Print (source_line repr s)" "\<lambda>s. Print (snippet_line s)"]
  show ?thesis
    using assms by (simp add: print_entries_def)
qed

text \<open>
  C8 (as amended): a run that succeeds ends by printing the source map. For each of the
  first 50 entries, in order, it prints the line
  \<open>[Source N] file=F page=P score=S\<close> and then the snippet line, two spaces, the two
  box-drawing characters, a space, the snippet and three dots. A score that is absent is
  printed as the text \<open>None\<close>. Entries after the 50th are not printed: one last line
  gives their number.
\<close>

theorem source_map_rendering:
  assumes "load_data env pdf_paths = Inr documents"
    and "from_documents env documents = Inr index"
    and "retrieve env index k q = Inr retrieved"
    and "retrieved \<noteq> []"
    and "split_and_number (SentenceSplitter env) retrieved cs co = Inr (numbered_nodes, source_map)"
    and "asynthesize env m q numbered_nodes = Inr resp"
  shows "answer_with_citations env pdf_paths q k cs co m =
           ([Print (loading_line pdf_paths), Load_data pdf_paths, From_documents, Retrieve k q,
             Print ''Generating answer...'', Asynthesize m q numbered_nodes]
            @ print_answer resp @ print_map_banner
            @ print_entries (repr_score env) source_map @ print_more source_map, None)
       \<and> length (print_entries (repr_score env) source_map) = 2 * min 50 (length source_map)
       \<and> (\<forall>i < min 50 (length source_map).
             print_entries (repr_score env) source_map ! (2 * i) =
               Print (''[Source '' @ str_int (sm_N (source_map ! i))
                      @ ''] file='' @ str_pyval (sm_file_path (source_map ! i))
                      @ '' page='' @ str_pyval (sm_page (source_map ! i))
                      @ '' score='' @ (case sm_score (source_map ! i) of
                                         None \<Rightarrow> ''None'' | Some x \<Rightarrow> repr_score env x))
           \<and> print_entries (repr_score env) source_map ! (2 * i + 1) =
               Print (''  '' @ branch_glyph @ '' '' @ sm_snippet (source_map ! i) @ ''...''))
       \<and> print_more source_map =
           (if 50 < length source_map
            then [Print (''...and '' @ str_int (int (length source_map) - 50) @ '' more chunks.'')]
            else [])"
proof -
  have "print_entries (repr_score env) source_map ! (2 * i) =
               Print (''[Source '' @ str_int (sm_N (source_map ! i))
                      @ ''] file='' @ str_pyval (sm_file_path (source_map ! i))
                      @ '' page='' @ str_pyval (sm_page (source_map ! i))
                      @ '' score='' @ (case sm_score (source_map ! i) of
                                         None \<Rightarrow> ''None'' | Some x \<Rightarrow> repr_score env x))
           \<and> print_entries (repr_score env) source_map ! (2 * i + 1) =
               Print (''  '' @ branch_glyph @ '' '' @ sm_snippet (source_map ! i) @ ''...'')"
    if "i < min 50 (length source_map)" for i
    using nth_print_entries [OF that, of "repr_score env"]
    by (simp add: source_line_def snippet_line_def str_score_def)
  moreover have "print_more source_map =
           (if 50 < length source_map
            then [Print (''...and '' @ str_int (int (length source_map) - 50) @ '' more chunks.'')]
            else [])"
    by (simp add: print_more_def)
  ultimately show ?thesis
    using run_success [OF assms] length_print_entries [of "repr_score env" source_map] by blast
qed

lemma entry_ab_3:
  "map entry_for [(1, passage_a, ''abcd''), (2, passage_a, ''defg''), (3, passage_a, ''ghij''),
                  (4, passage_b, ''xy'' @ [newline] @ ''z'')] ! 3
     = \<lparr> sm_N = 4, sm_file_path = PStr ''unknown'', sm_page = PStr ''?'', sm_score = None,
         sm_snippet = ''xy z'' \<rparr>"
  by (simp add: entry_for_triple new_entry_def file_path_of_def page_of_def py_or_def meta_get_def
      metadata_b score_b replace_char_single newline_def)

lemma str_int_4: "str_int 4 = ''4''"
  by (simp add: str_int_def str_nat.simps digit_char_def)

theorem source_map_rendering_witness:
  "load_data (stub_env [passage_a, passage_b]) [''a.pdf''] = Inr ()
   \<and> from_documents (stub_env [passage_a, passage_b]) () = Inr ()
   \<and> retrieve (stub_env [passage_a, passage_b]) () 4 ''q'' = Inr [passage_a, passage_b]
   \<and> [passage_a, passage_b] \<noteq> []
   \<and> (3::nat) < min 50 (length (snd (projr (split_and_number stub_splitter [passage_a, passage_b] 4 1))))
   \<and> print_entries (\<lambda>x. x) (snd (projr (split_and_number stub_splitter [passage_a, passage_b] 4 1))) ! 6
        = Print ''[Source 4] file=unknown page=? score=None''
   \<and> print_entries (\<lambda>x. x) (snd (projr (split_and_number stub_splitter [passage_a, passage_b] 4 1))) ! 7
        = Print (''  '' @ branch_glyph @ '' xy z...'')
   \<and> print_more (snd (projr (split_and_number stub_splitter [passage_a, passage_b] 4 1))) = []"
proof -
  let ?env = "stub_env [passage_a, passage_b]"
  let ?nn = "fst (projr (split_and_number stub_splitter [passage_a, passage_b] 4 1))"
  let ?sm = "snd (projr (split_and_number stub_splitter [passage_a, passage_b] 4 1))"
  have h: "load_data ?env [''a.pdf''] = Inr ()"
    "from_documents ?env () = Inr ()"
    "retrieve ?env () 4 ''q'' = Inr [passage_a, passage_b]"
    "[passage_a, passage_b] \<noteq> []"
    by (simp_all add: stub_env_simps)
  have r: "split_and_number (SentenceSplitter ?env) [passage_a, passage_b] 4 1 = Inr (?nn, ?sm)"
    by (simp add: stub_env_simps run_ab)
  have a: "asynthesize ?env ''m'' ''q'' ?nn = Inr stub_response"
    by (simp add: stub_env_simps run_ab)
  have l: "length ?sm = 4"
    by (simp add: run_ab)
  then have i: "(3::nat) < min 50 (length ?sm)"
    by simp
  have e: "?sm ! 3 = \<lparr> sm_N = 4, sm_file_path = PStr ''unknown'', sm_page = PStr ''?'',
      sm_score = None, sm_snippet = ''xy z'' \<rparr>"
    unfolding run_ab using entry_ab_3 by simp
  note c = source_map_rendering [of ?env "[''a.pdf'']" "()" "()" 4 "''q''" "[passage_a, passage_b]"
      4 1 ?nn ?sm "''m''" stub_response, OF h r a]
  from c i have "print_entries (repr_score ?env) ?sm ! (2 * 3) =
               Print (''[Source '' @ str_int (sm_N (?sm ! 3))
                      @ ''] file='' @ str_pyval (sm_file_path (?sm ! 3))
                      @ '' page='' @ str_pyval (sm_page (?sm ! 3))
                      @ '' score='' @ (case sm_score (?sm ! 3) of
                                         None \<Rightarrow> ''None'' | Some x \<Rightarrow> repr_score ?env x))"
    and "print_entries (repr_score ?env) ?sm ! (2 * 3 + 1) =
               Print (''  '' @ branch_glyph @ '' '' @ sm_snippet (?sm ! 3) @ ''...'')"
    by blast+
  then have "print_entries (\<lambda>x. x) ?sm ! 6 = Print ''[Source 4] file=unknown page=? score=None''"
    and "print_entries (\<lambda>x. x) ?sm ! 7 = Print (''  '' @ branch_glyph @ '' xy z...'')"
    unfolding e by (simp_all add: stub_env_simps str_int_4)
  moreover from c have "print_more ?sm = (if 50 < length ?sm
            then [Print (''...and '' @ str_int (int (length ?sm) - 50) @ '' more chunks.'')]
            else [])"
    by blast
  then have "print_more ?sm = []"
    by (simp add: l)
  ultimately show ?thesis
    using h i by blast
qed

lemma windows_1_1: "windows (Suc 0) (Suc 0) s = map (\<lambda>c. [c]) s"
proof (induction s)
  case Nil
  show ?case by (simp add: windows.simps)
next
  case (Cons x xs)
  show ?case
  proof (cases xs)
    case Nil
    then show ?thesis by (simp add: windows.simps)
  next
    case (Cons y ys)
    with Cons.IH show ?thesis
      by (subst windows.simps) simp
  qed
qed

lemma stub_splitter_1_0: "stub_splitter 1 0 = Inr (windows (Suc 0) (Suc 0))"
  by (simp add: stub_splitter_def)

lemma length_parent_chunks_long:
  "length (parent_chunks (windows (Suc 0) (Suc 0)) [passage_long]) = 51"
  by (simp add: parent_chunks_def passage_long_def windows_1_1)

lemma run_long:
  "split_and_number stub_splitter [passage_long] 1 0 =
     Inr (map unit_for (numbered_from 1 (parent_chunks (windows (Suc 0) (Suc 0)) [passage_long])),
          map entry_for (numbered_from 1 (parent_chunks (windows (Suc 0) (Suc 0)) [passage_long])))"
  by (rule split_and_number_Inr [of stub_splitter 1 0 "windows (Suc 0) (Suc 0)", OF stub_splitter_1_0])

lemma length_source_map_long:
  "length (snd (projr (split_and_number stub_splitter [passage_long] 1 0))) = 51"
  by (simp add: run_long length_numbered_from length_parent_chunks_long)

text \<open>
  C8 as stated fails: a run with 51 chunks prints 50 entries and the line about one more
  chunk, and a run with an entry without score prints \<open>score=None\<close>.
\<close>

theorem capped_listing_counterexample:
  "length (snd (projr (split_and_number stub_splitter [passage_long] 1 0))) = 51
   \<and> length (print_entries (\<lambda>x. x) (snd (projr (split_and_number stub_splitter [passage_long] 1 0)))) = 2 * 50
   \<and> last (fst (answer_with_citations (stub_env [passage_long]) [''a.pdf''] ''q'' 4 1 0 ''m''))
        = Print ''...and 1 more chunks.''
   \<and> fst (answer_with_citations (stub_env [passage_a, passage_b]) [''a.pdf''] ''q'' 4 4 1 ''m'') ! 19
        = Print ''[Source 4] file=unknown page=? score=None''"
proof -
  let ?sm = "snd (projr (split_and_number stub_splitter [passage_long] 1 0))"
  let ?nn = "fst (projr (split_and_number stub_splitter [passage_long] 1 0))"
  have n: "length (print_entries (\<lambda>x. x) ?sm) = 2 * 50"
    by (simp add: length_print_entries length_source_map_long)
  have r: "split_and_number (SentenceSplitter (stub_env [passage_long])) [passage_long] 1 0 = Inr (?nn, ?sm)"
    by (simp add: stub_env_simps run_long)
  have h: "load_data (stub_env [passage_long]) [''a.pdf''] = Inr ()"
    "from_documents (stub_env [passage_long]) () = Inr ()"
    "retrieve (stub_env [passage_long]) () 4 ''q'' = Inr [passage_long]"
    "[passage_long] \<noteq> []"
    by (simp_all add: stub_env_simps)
  have "length ?nn = 51"
    by (simp add: run_long length_numbered_from length_parent_chunks_long)
  then have "?nn \<noteq> []"
    by auto
  then have a: "asynthesize (stub_env [passage_long]) ''m'' ''q'' ?nn = Inr stub_response"
    by (simp add: stub_env_simps)
  have m: "print_more ?sm = [Print ''...and 1 more chunks.'']"
    by (simp add: print_more_def length_source_map_long str_int_def str_nat.simps digit_char_def)
  have l: "last (fst (answer_with_citations (stub_env [passage_long]) [''a.pdf''] ''q'' 4 1 0 ''m''))
      = Print ''...and 1 more chunks.''"
    unfolding run_success [OF h r a] m by simp
  let ?smb = "snd (projr (split_and_number stub_splitter [passage_a, passage_b] 4 1))"
  let ?nnb = "fst (projr (split_and_number stub_splitter [passage_a, passage_b] 4 1))"
  have rb: "split_and_number (SentenceSplitter (stub_env [passage_a, passage_b])) [passage_a, passage_b] 4 1
      = Inr (?nnb, ?smb)"
    by (simp add: stub_env_simps run_ab)
  have hb: "load_data (stub_env [passage_a, passage_b]) [''a.pdf''] = Inr ()"
    "from_documents (stub_env [passage_a, passage_b]) () = Inr ()"
    "retrieve (stub_env [passage_a, passage_b]) () 4 ''q'' = Inr [passage_a, passage_b]"
    "[passage_a, passage_b] \<noteq> []"
    by (simp_all add: stub_env_simps)
  have ab: "asynthesize (stub_env [passage_a, passage_b]) ''m'' ''q'' ?nnb = Inr stub_response"
    by (simp add: stub_env_simps run_ab)
  have lb: "length ?smb = 4"
    by (simp add: run_ab)
  then have ib: "(3::nat) < min 50 (length ?smb)"
    by simp
  have e: "?smb ! 3 = \<lparr> sm_N = 4, sm_file_path = PStr ''unknown'', sm_page = PStr ''?'',
      sm_score = None, sm_snippet = ''xy z'' \<rparr>"
    unfolding run_ab using entry_ab_3 by simp
  have "print_entries (\<lambda>x. x) ?smb ! (2 * 3) = Print (source_line (\<lambda>x. x) (?smb ! 3))"
    using nth_print_entries [OF ib, of "\<lambda>x. x"] by blast
  then have p6: "print_entries (\<lambda>x. x) ?smb ! 6 = Print ''[Source 4] file=unknown page=? score=None''"
    unfolding e by (simp add: source_line_def str_score_def str_int_4)
  have len8: "length (print_entries (\<lambda>x. x) ?smb) = 8"
    by (simp add: length_print_entries lb)
  have "fst (answer_with_citations (stub_env [passage_a, passage_b]) [''a.pdf''] ''q'' 4 4 1 ''m'') ! 19
      = print_entries (\<lambda>x. x) ?smb ! 6"
    unfolding run_success [OF hb rb ab]
    by (simp add: print_answer_def print_map_banner_def stub_env_simps nth_append len8)
  with p6 n l length_source_map_long show ?thesis by simp
qed

section \<open>The labels in the unit texts and in the prompt\<close>






















end
